theory Spec2Isabelle
  imports Complex_Main "HOL-Library.Multiset"
begin

section \<open>The tab wrapper of \<^verbatim>\<open>qutebrowser/browser/browsertab.py\<close>\<close>

text \<open>
  The embedding follows the Python source function by function. A method that mutates
  \<^verbatim>\<open>self\<close> takes the object and returns it updated, together with what the call
  produced: a returned value or a raised exception. An exception leaves the mutations made
  before it in place, as in Python, so the state is returned in both cases.
  Signals sent and calls into the rest of the application (messages, windows, the
  tabbed browser) are appended to the field \<open>trace\<close>, in the order in which they happen;
  the trace is an observation of the run, not an attribute of the Python object.
  Calls to the logger are left out; exception messages are left out of the exception
  values, only the class is kept.

  Names are those of the source. A method loses its leading underscore
  (\<^verbatim>\<open>_on_load_started\<close> is \<open>on_load_started\<close>); an attribute with a leading
  underscore is written with \<open>priv_\<close> (\<^verbatim>\<open>_progress\<close> is \<open>priv_progress\<close>, read by
  the method \<open>progress\<close>).
\<close>

subsection \<open>Values, exceptions, results\<close>

text \<open>The enumerations of \<^verbatim>\<open>usertypes\<close>, with the members the source names.\<close>

datatype LoadStatus = none | success | success_https | error | warn | loading

datatype ClickTarget = normal | tab | tab_bg | window

text \<open>The \<^verbatim>\<open>name\<close> attribute of an enumeration member.\<close>

fun LoadStatus_name :: "LoadStatus \<Rightarrow> string" where
  "LoadStatus_name none = ''none''"
| "LoadStatus_name success = ''success''"
| "LoadStatus_name success_https = ''success_https''"
| "LoadStatus_name error = ''error''"
| "LoadStatus_name warn = ''warn''"
| "LoadStatus_name loading = ''loading''"

text \<open>
  Python is dynamically typed: a setter can be handed any object. The values a caller
  may pass where a \<^verbatim>\<open>LoadStatus\<close> is expected.
\<close>

datatype pyval =
    NoneV
  | BoolV bool
  | IntV int
  | StrV string
  | LoadStatusV LoadStatus
  | ClickTargetV ClickTarget

fun isinstance_LoadStatus :: "pyval \<Rightarrow> bool" where
  "isinstance_LoadStatus (LoadStatusV s) = True"
| "isinstance_LoadStatus v = False"

datatype exn = TypeError | ValueError | OverflowError | AssertionError | RegistryUnavailableError

datatype 'a res = Return 'a | Raise exn

text \<open>Sequencing: the second statement runs only when the first did not raise.\<close>

definition bind_res :: "'a res \<times> 's \<Rightarrow> ('a \<Rightarrow> 's \<Rightarrow> 'b res \<times> 's) \<Rightarrow> 'b res \<times> 's" where
  "bind_res m f = (case m of (Return a, s) \<Rightarrow> f a s | (Raise e, s) \<Rightarrow> (Raise e, s))"

text \<open>What the source reads of a \<^verbatim>\<open>QUrl\<close>.\<close>

record QUrl =
  isValid :: bool
  scheme :: string
  toDisplayString :: string

text \<open>The trace: signals of the tab, and calls that leave the tab.\<close>

datatype effect =
    load_status_changed string
  | load_started
  | load_progress int
  | load_finished bool
  | title_changed string
  | url_changed QUrl
  | message_error int string
  | MainWindow_new int
  | MainWindow_show int
  | tabopen int QUrl bool

subsection \<open>TabData\<close>

record TabData =
  keep_icon :: bool
  viewing_source :: bool
  inspector :: "nat option"
  open_target :: ClickTarget
  hint_target :: "ClickTarget option"

definition TabData_init :: TabData where
  "TabData_init = \<lparr>keep_icon = False, viewing_source = False, inspector = None,
     open_target = normal, hint_target = None\<rparr>"

definition combined_target :: "TabData \<Rightarrow> ClickTarget" where
  "combined_target self =
     (case hint_target self of Some h \<Rightarrow> h | None \<Rightarrow> open_target self)"

definition on_start_hinting :: "ClickTarget \<Rightarrow> TabData \<Rightarrow> TabData" where
  "on_start_hinting ht self = self\<lparr>hint_target := Some ht\<rparr>"

definition on_stop_hinting :: "TabData \<Rightarrow> TabData" where
  "on_stop_hinting self = self\<lparr>hint_target := None\<rparr>"

subsection \<open>AbstractTab\<close>

text \<open>
  \<^verbatim>\<open>url()\<close> and \<^verbatim>\<open>title()\<close> are abstract in \<^verbatim>\<open>AbstractTab\<close>: the backend's
  subclass answers them from its widget. They are fields here, which no method of the
  base class changes. \<^verbatim>\<open>registry\<close> holds the names registered in the tab's own
  object registry. The Qt objects a tab owns (the wrapped widget, the layout, the mouse
  event filter) are left out.
\<close>

datatype regobj = TabObj int | HintManagerObj int int

record AbstractTab =
  win_id :: int
  tab_id :: int
  registry :: "string \<rightharpoonup> regobj"
  data :: TabData
  priv_progress :: int
  priv_has_ssl_errors :: bool
  priv_load_status :: LoadStatus
  url :: QUrl
  title :: string
  trace :: "effect list"

text \<open>Emitting a signal, and calling into another module.\<close>

definition emit :: "effect \<Rightarrow> AbstractTab \<Rightarrow> AbstractTab" where
  "emit e self = self\<lparr>trace := trace self @ [e]\<rparr>"

definition call_out :: "effect \<Rightarrow> AbstractTab \<Rightarrow> AbstractTab" where
  "call_out e self = self\<lparr>trace := trace self @ [e]\<rparr>"

text \<open>
  \<^verbatim>\<open>_set_load_status\<close>: the check \<^verbatim>\<open>isinstance(val, usertypes.LoadStatus)\<close> comes
  first; past it \<open>val\<close> is a member, and the last branch of the case distinction is
  never taken.
\<close>

definition set_load_status :: "pyval \<Rightarrow> AbstractTab \<Rightarrow> unit res \<times> AbstractTab" where
  "set_load_status val self =
     (if \<not> isinstance_LoadStatus val then (Raise TypeError, self)
      else (case val of
              LoadStatusV s \<Rightarrow>
                (Return (),
                 emit (load_status_changed (LoadStatus_name s)) (self\<lparr>priv_load_status := s\<rparr>))
            | _ \<Rightarrow> (Raise TypeError, self)))"

definition on_url_changed :: "QUrl \<Rightarrow> AbstractTab \<Rightarrow> unit res \<times> AbstractTab" where
  "on_url_changed u self =
     (let self = (if isValid u \<and> title self = [] then emit (title_changed (toDisplayString u)) self
                  else self)
      in (Return (), emit (url_changed u) self))"

definition on_load_started :: "AbstractTab \<Rightarrow> unit res \<times> AbstractTab" where
  "on_load_started self =
     (let self = self\<lparr>priv_progress := 0\<rparr>;
          self = self\<lparr>priv_has_ssl_errors := False\<rparr>;
          self = self\<lparr>data := (data self)\<lparr>viewing_source := False\<rparr>\<rparr>
      in bind_res (set_load_status (LoadStatusV loading) self)
           (\<lambda>_ self. (Return (), emit load_started self)))"

definition on_load_finished :: "bool \<Rightarrow> AbstractTab \<Rightarrow> unit res \<times> AbstractTab" where
  "on_load_finished ok self =
     bind_res
       (if ok \<and> \<not> priv_has_ssl_errors self then
          (if scheme (url self) = ''https''
           then set_load_status (LoadStatusV success_https) self
           else set_load_status (LoadStatusV success) self)
        else if ok then set_load_status (LoadStatusV warn) self
        else set_load_status (LoadStatusV error) self)
       (\<lambda>_ self.
          let self = emit (load_finished ok) self
          in if title self = []
             then (Return (), emit (title_changed (toDisplayString (url self))) self)
             else (Return (), self))"

definition on_load_progress :: "int \<Rightarrow> AbstractTab \<Rightarrow> unit res \<times> AbstractTab" where
  "on_load_progress perc self =
     (Return (), emit (load_progress perc) (self\<lparr>priv_progress := perc\<rparr>))"

definition on_ssl_errors :: "AbstractTab \<Rightarrow> unit res \<times> AbstractTab" where
  "on_ssl_errors self = (Return (), self\<lparr>priv_has_ssl_errors := True\<rparr>)"

definition progress :: "AbstractTab \<Rightarrow> int" where
  "progress self = priv_progress self"

definition load_status :: "AbstractTab \<Rightarrow> LoadStatus" where
  "load_status self = priv_load_status self"

text \<open>
  \<^verbatim>\<open>_on_link_clicked\<close>. Two things it calls belong to other modules and are
  parameters: \<^verbatim>\<open>urlutils.get_errstring\<close>, and the id that
  \<^verbatim>\<open>mainwindow.MainWindow()\<close> gives the window it creates. The method returns
  \<^verbatim>\<open>False\<close> for an invalid URL and \<^verbatim>\<open>None\<close> otherwise.
\<close>

definition on_link_clicked ::
  "(QUrl \<Rightarrow> string \<Rightarrow> string) \<Rightarrow> int \<Rightarrow> QUrl \<Rightarrow> AbstractTab \<Rightarrow> bool option res \<times> AbstractTab" where
  "on_link_clicked get_errstring new_window_id u self =
     (if \<not> isValid u then
        (let msg = get_errstring u ''Invalid link clicked'';
             self = call_out (message_error (win_id self) msg) self;
             self = self\<lparr>data := (data self)\<lparr>open_target := normal\<rparr>\<rparr>
         in (Return (Some False), self))
      else
        (let target = combined_target (data self) in
         if target = normal then (Return None, self)
         else
           bind_res
             (if target = tab then (Return (win_id self, False), self)
              else if target = tab_bg then (Return (win_id self, True), self)
              else if target = window then
                (Return (new_window_id, False),
                 call_out (MainWindow_show new_window_id)
                   (call_out (MainWindow_new new_window_id) self))
              else (Raise ValueError, self))
             (\<lambda>(wid, bg_tab) self.
                let self = call_out (tabopen wid u bg_tab) self;
                    self = self\<lparr>data := (data self)\<lparr>open_target := normal\<rparr>\<rparr>
                in (Return None, self))))"

subsection \<open>Slots called one after the other\<close>

text \<open>
  The slots of the tab that the backend and the hint manager call, and a run of such
  calls in order; a run ends at the first call that raises.
\<close>

datatype slot_call =
    LoadStarted
  | LoadFinished bool
  | LoadProgress int
  | SslErrors
  | UrlChanged QUrl
  | StartHinting ClickTarget
  | StopHinting

fun deliver :: "slot_call \<Rightarrow> AbstractTab \<Rightarrow> unit res \<times> AbstractTab" where
  "deliver LoadStarted self = on_load_started self"
| "deliver (LoadFinished ok) self = on_load_finished ok self"
| "deliver (LoadProgress perc) self = on_load_progress perc self"
| "deliver SslErrors self = on_ssl_errors self"
| "deliver (UrlChanged u) self = on_url_changed u self"
| "deliver (StartHinting ht) self = (Return (), self\<lparr>data := on_start_hinting ht (data self)\<rparr>)"
| "deliver StopHinting self = (Return (), self\<lparr>data := on_stop_hinting (data self)\<rparr>)"

fun run :: "slot_call list \<Rightarrow> AbstractTab \<Rightarrow> unit res \<times> AbstractTab" where
  "run [] self = (Return (), self)"
| "run (c # cs) self = bind_res (deliver c self) (\<lambda>_ self. run cs self)"

text \<open>The calls made after the last \<^verbatim>\<open>_on_load_started\<close> of a run.\<close>

definition since_last_start :: "slot_call list \<Rightarrow> slot_call list" where
  "since_last_start cs = rev (takeWhile (\<lambda>c. c \<noteq> LoadStarted) (rev cs))"

subsection \<open>The constructor and the shared counter of tab ids\<close>

text \<open>
  \<^verbatim>\<open>tab_id_gen = itertools.count(0)\<close> is module state: the next value it yields.
  The object registry (\<^verbatim>\<open>objreg\<close>) is another module; of it the constructor
  uses the tab registry of a window, a dictionary from tab ids to tabs. A window that
  has no registry makes the lookup raise. The registry holds the object
  itself, so it sees the attributes set later in the constructor: the model stores the
  tab as it is when the constructor returns.
\<close>

record World =
  tab_id_gen :: int
  tab_registry :: "int \<rightharpoonup> (int \<rightharpoonup> AbstractTab)"

definition World_init :: "(int \<rightharpoonup> (int \<rightharpoonup> AbstractTab)) \<Rightarrow> World" where
  "World_init regs = \<lparr>tab_id_gen = 0, tab_registry = regs\<rparr>"

text \<open>\<^verbatim>\<open>next()\<close> on an \<^verbatim>\<open>itertools.count\<close>.\<close>

definition next_count :: "int \<Rightarrow> int \<times> int" where
  "next_count n = (n, n + 1)"

definition AbstractTab_init :: "int \<Rightarrow> QUrl \<Rightarrow> string \<Rightarrow> World \<Rightarrow> AbstractTab res \<times> World" where
  "AbstractTab_init wid widget_url widget_title w =
     (let (tid, gen) = next_count (tab_id_gen w);
          w = w\<lparr>tab_id_gen := gen\<rparr>
      in case tab_registry w wid of
           None \<Rightarrow> (Raise RegistryUnavailableError, w)
         | Some reg \<Rightarrow>
             (let self = \<lparr>win_id = wid, tab_id = tid,
                          registry = [''tab'' \<mapsto> TabObj tid, ''hintmanager'' \<mapsto> HintManagerObj wid tid],
                          data = TabData_init, priv_progress = 0, priv_has_ssl_errors = False,
                          priv_load_status = none, url = widget_url, title = widget_title,
                          trace = []\<rparr>
              in (Return self, w\<lparr>tab_registry := (tab_registry w)(wid \<mapsto> reg(tid \<mapsto> self))\<rparr>)))"

text \<open>
  Constructor calls of a process, in order: each with the window id and what the
  backend's widget answers. The result of every call is kept, raised or returned.
\<close>

fun construct_all :: "(int \<times> QUrl \<times> string) list \<Rightarrow> World \<Rightarrow> AbstractTab res list \<times> World" where
  "construct_all [] w = ([], w)"
| "construct_all ((wid, u, ti) # cs) w =
     (let (r, w) = AbstractTab_init wid u ti w;
          (rs, w) = construct_all cs w
      in (r # rs, w))"

subsection \<open>The factory\<close>

text \<open>
  \<^verbatim>\<open>create\<close> picks the class of the tab from the command line arguments registered
  under \<^verbatim>\<open>'args'\<close>. The two classes live in the backend packages; a tab object is
  the class applied to the arguments of the constructor call. The mode manager comes
  from \<^verbatim>\<open>modeman.instance\<close>, a parameter.
\<close>

record Args =
  backend :: string

datatype ('m, 'p) tab_object =
    WebEngineTab int 'm "'p option"
  | WebKitTab int 'm "'p option"

definition create :: "Args \<Rightarrow> (int \<Rightarrow> 'm) \<Rightarrow> int \<Rightarrow> 'p option \<Rightarrow> ('m, 'p) tab_object" where
  "create args modeman_instance wid parent =
     (let mode_manager = modeman_instance wid;
          tab_class = (if backend args = ''webengine'' then WebEngineTab else WebKitTab)
      in tab_class wid mode_manager parent)"

subsection \<open>AbstractZoom\<close>

text \<open>
  A Python \<^verbatim>\<open>float\<close> is a finite number, an infinity or a NaN. The finite ones are
  taken from the reals; the rounding of a product to the nearest float is a parameter
  \<open>rnd\<close>, which may answer an infinity on overflow. Zero has no sign here.
\<close>

datatype pyfloat = Finite real | PosInf | NegInf | NaN

fun float_sign_pos :: "pyfloat \<Rightarrow> bool" where
  "float_sign_pos (Finite r) = (0 < r)"
| "float_sign_pos PosInf = True"
| "float_sign_pos NegInf = False"
| "float_sign_pos NaN = False"

fun float_mul :: "(real \<Rightarrow> pyfloat) \<Rightarrow> pyfloat \<Rightarrow> pyfloat \<Rightarrow> pyfloat" where
  "float_mul rnd NaN y = NaN"
| "float_mul rnd x NaN = NaN"
| "float_mul rnd (Finite a) (Finite b) = rnd (a * b)"
| "float_mul rnd x y =
     (if x = Finite 0 \<or> y = Finite 0 then NaN
      else if float_sign_pos x = float_sign_pos y then PosInf else NegInf)"

text \<open>\<open>x < y\<close> and \<open>x >= y\<close> on floats: every comparison with a NaN is false.\<close>

fun float_lt :: "pyfloat \<Rightarrow> pyfloat \<Rightarrow> bool" where
  "float_lt NaN y = False"
| "float_lt x NaN = False"
| "float_lt (Finite a) (Finite b) = (a < b)"
| "float_lt x PosInf = (x \<noteq> PosInf)"
| "float_lt NegInf y = (y \<noteq> NegInf)"
| "float_lt x y = False"

fun float_ge :: "pyfloat \<Rightarrow> pyfloat \<Rightarrow> bool" where
  "float_ge NaN y = False"
| "float_ge x NaN = False"
| "float_ge x y = (\<not> float_lt x y)"

text \<open>
  \<^verbatim>\<open>int(x)\<close> of a float truncates towards zero; it raises OverflowError on an
  infinity and ValueError on a NaN.
\<close>

fun py_int :: "pyfloat \<Rightarrow> int res" where
  "py_int (Finite r) = Return (if 0 \<le> r then \<lfloor>r\<rfloor> else \<lceil>r\<rceil>)"
| "py_int PosInf = Raise OverflowError"
| "py_int NegInf = Raise OverflowError"
| "py_int NaN = Raise ValueError"

text \<open>
  Of \<^verbatim>\<open>usertypes.NeighborList\<close> the zoom levels and the attribute \<^verbatim>\<open>fuzzyval\<close> are
  kept. \<^verbatim>\<open>_set_factor_internal\<close> is the backend's: a parameter, acting on the widget.
\<close>

record NeighborList =
  levels :: "int list"
  fuzzyval :: int

record 'w AbstractZoom =
  zoom_widget :: 'w
  zoom_win_id :: int
  default_zoom_changed :: bool
  neighborlist :: NeighborList

definition set_factor ::
  "(real \<Rightarrow> pyfloat) \<Rightarrow> (pyfloat \<Rightarrow> 'w \<Rightarrow> 'w) \<Rightarrow> pyfloat \<Rightarrow> bool \<Rightarrow> 'w AbstractZoom
     \<Rightarrow> unit res \<times> 'w AbstractZoom" where
  "set_factor rnd set_factor_internal factor fuzzy self =
     bind_res
       (if fuzzy then
          (case py_int (float_mul rnd factor (Finite 100)) of
             Raise e \<Rightarrow> (Raise e, self)
           | Return n \<Rightarrow> (Return (), self\<lparr>neighborlist := (neighborlist self)\<lparr>fuzzyval := n\<rparr>\<rparr>))
        else (Return (), self))
       (\<lambda>_ self.
          if float_lt factor (Finite 0) then (Raise ValueError, self)
          else
            (let self = self\<lparr>default_zoom_changed := True\<rparr>
             in (Return (), self\<lparr>zoom_widget := set_factor_internal factor (zoom_widget self)\<rparr>)))"

section \<open>The request steps of \<^verbatim>\<open>tests/integration/features/conftest.py\<close>\<close>

text \<open>
  Strings are lists of characters with codes below 256. \<^verbatim>\<open>str.split\<close> with a one
  character separator, and \<^verbatim>\<open>str.strip\<close>, which removes the characters
  \<^verbatim>\<open>str.isspace\<close> accepts from both ends.
\<close>

fun split_on :: "char \<Rightarrow> string \<Rightarrow> string list" where
  "split_on sep [] = [[]]"
| "split_on sep (c # cs) =
     (if c = sep then [] # split_on sep cs
      else (case split_on sep cs of
              [] \<Rightarrow> [[c]]
            | w # ws \<Rightarrow> (c # w) # ws))"

definition isspace :: "char \<Rightarrow> bool" where
  "isspace c = (of_char c \<in> {9, 10, 11, 12, 13, 28, 29, 30, 31, 32, 133, 160 :: nat})"

definition strip :: "string \<Rightarrow> string" where
  "strip s = rev (dropWhile isspace (rev (dropWhile isspace s)))"

text \<open>
  The fixture \<^verbatim>\<open>httpbin\<close> belongs to the test helpers. An expected request is
  built from a verb and a path and is hashable; two of them are equal when both parts
  are. The requests the server logged, the conversion \<^verbatim>\<open>from_request\<close> and the
  comparison \<^verbatim>\<open>==\<close> of a logged request with an expected one are parameters.
\<close>

datatype ExpectedRequest = ExpectedRequest string string

definition expected_requests :: "string \<Rightarrow> ExpectedRequest list" where
  "expected_requests pages =
     map (\<lambda>path. ExpectedRequest ''GET'' (''/'' @ strip path)) (split_on (CHR 0x0A) pages)"

text \<open>\<^verbatim>\<open>==\<close> on two lists: the same length, and equal elements at every index.\<close>

fun list_eq :: "('a \<Rightarrow> 'b \<Rightarrow> bool) \<Rightarrow> 'a list \<Rightarrow> 'b list \<Rightarrow> bool" where
  "list_eq eq [] [] = True"
| "list_eq eq (x # xs) (y # ys) = (eq x y \<and> list_eq eq xs ys)"
| "list_eq eq xs ys = False"

text \<open>
  \<^verbatim>\<open>collections.Counter\<close> over a list: a dictionary from element to count, filled in
  the order of the list. Two dictionaries are equal when they have the same number of
  keys and every key of the first has the same value in the second.
\<close>

fun counter_add :: "'a \<Rightarrow> ('a \<times> int) list \<Rightarrow> ('a \<times> int) list" where
  "counter_add x [] = [(x, 1)]"
| "counter_add x ((k, n) # kvs) =
     (if k = x then (k, n + 1) # kvs else (k, n) # counter_add x kvs)"

definition Counter :: "'a list \<Rightarrow> ('a \<times> int) list" where
  "Counter xs = foldl (\<lambda>c x. counter_add x c) [] xs"

definition dict_eq :: "('k \<times> 'v) list \<Rightarrow> ('k \<times> 'v) list \<Rightarrow> bool" where
  "dict_eq a b = (length a = length b \<and> list_all (\<lambda>(k, v). map_of b k = Some v) a)"

definition list_of_requests ::
  "('r \<Rightarrow> ExpectedRequest \<Rightarrow> bool) \<Rightarrow> 'r list \<Rightarrow> string \<Rightarrow> unit res" where
  "list_of_requests req_eq get_requests pages =
     (let expected = expected_requests pages;
          actual = get_requests
      in if list_eq req_eq actual expected then Return () else Raise AssertionError)"

definition list_of_requests_unordered ::
  "('r \<Rightarrow> ExpectedRequest) \<Rightarrow> 'r list \<Rightarrow> string \<Rightarrow> unit res" where
  "list_of_requests_unordered from_request get_requests pages =
     (let expected = expected_requests pages;
          actual = get_requests;
          actual = map from_request actual
      in if dict_eq (Counter actual) (Counter expected) then Return () else Raise AssertionError)"

section \<open>Concrete states\<close>

text \<open>
  A page served over https whose load met certificate errors, a tab showing it, and a
  zoom attribute whose widget is nothing but its zoom factor. The theorems below are
  exercised on them.
\<close>

definition example_url :: QUrl where
  "example_url = \<lparr>isValid = True, scheme = ''https'', toDisplayString = ''https://example.org/''\<rparr>"

definition invalid_url :: QUrl where
  "invalid_url = \<lparr>isValid = False, scheme = [], toDisplayString = []\<rparr>"

definition example_tab :: AbstractTab where
  "example_tab = \<lparr>win_id = 3, tab_id = 5, registry = Map.empty,
     data = \<lparr>keep_icon = False, viewing_source = True, inspector = None,
              open_target = tab_bg, hint_target = None\<rparr>,
     priv_progress = 37, priv_has_ssl_errors = True, priv_load_status = loading,
     url = example_url, title = [], trace = []\<rparr>"

definition widget_setZoomFactor :: "pyfloat \<Rightarrow> pyfloat \<Rightarrow> pyfloat" where
  "widget_setZoomFactor factor w = factor"

definition example_zoom :: "pyfloat AbstractZoom" where
  "example_zoom = \<lparr>zoom_widget = Finite 1, zoom_win_id = 3, default_zoom_changed = False,
     neighborlist = \<lparr>levels = [50, 100, 200], fuzzyval = 100\<rparr>\<rparr>"

text \<open>An error string that is the base message alone, and a process with one window.\<close>

definition errstring_base :: "QUrl \<Rightarrow> string \<Rightarrow> string" where
  "errstring_base u base = base"

definition one_window :: "int \<rightharpoonup> (int \<rightharpoonup> AbstractTab)" where
  "one_window = Map.empty(3 \<mapsto> Map.empty)"

section \<open>Auxiliary facts\<close>

lemma bind_res_Return [simp]: "bind_res (Return a, s) f = f a s"
  by (simp add: bind_res_def)

lemma bind_res_Raise [simp]: "bind_res (Raise e, s) f = (Raise e, s)"
  by (simp add: bind_res_def)

lemma set_load_status_member [simp]:
  "set_load_status (LoadStatusV s) self =
     (Return (), emit (load_status_changed (LoadStatus_name s)) (self\<lparr>priv_load_status := s\<rparr>))"
  by (simp add: set_load_status_def)

lemmas slot_defs =
  on_load_started_def on_load_finished_def on_load_progress_def on_ssl_errors_def
  on_url_changed_def

subsection \<open>Runs of slot calls\<close>

lemma on_load_finished_status:
  "fst (on_load_finished ok self) = Return ()
   \<and> priv_load_status (snd (on_load_finished ok self)) =
       (if ok \<and> \<not> priv_has_ssl_errors self
        then (if scheme (url self) = ''https'' then success_https else success)
        else if ok then warn else error)"
  by (simp add: on_load_finished_def emit_def Let_def)

lemma deliver_returns: "fst (deliver c self) = Return ()"
  by (cases c) (simp_all add: slot_defs Let_def)

lemma deliver_url: "url (snd (deliver c self)) = url self"
  by (cases c) (simp_all add: slot_defs Let_def emit_def)

lemma deliver_flag:
  "priv_has_ssl_errors (snd (deliver c self)) =
     (if c = LoadStarted then False else if c = SslErrors then True
      else priv_has_ssl_errors self)"
  by (cases c) (simp_all add: slot_defs Let_def emit_def)

lemma run_snoc:
  "run (cs @ [c]) self = bind_res (run cs self) (\<lambda>_ self. deliver c self)"
proof (induction cs arbitrary: self)
  case Nil
  show ?case by (cases "deliver c self") (simp add: bind_res_def split: res.split)
next
  case (Cons d cs)
  show ?case
    by (cases "deliver d self") (simp add: Cons.IH bind_res_def split: res.split)
qed

lemma run_returns: "fst (run cs self) = Return ()"
proof (induction cs arbitrary: self)
  case Nil
  show ?case by simp
next
  case (Cons c cs)
  obtain s where "deliver c self = (Return (), s)"
    using deliver_returns [of c self] by (cases "deliver c self") simp
  then show ?case by (simp add: Cons.IH)
qed

lemma run_snoc_state: "snd (run (cs @ [c]) self) = snd (deliver c (snd (run cs self)))"
  using run_returns [of cs self] by (cases "run cs self") (simp add: run_snoc)

lemma run_url: "url (snd (run cs self)) = url self"
  by (induction cs rule: rev_induct) (simp_all add: run_snoc_state deliver_url)

text \<open>
  The flag \<^verbatim>\<open>_has_ssl_errors\<close> after a run: once a load has started, it tells
  whether \<^verbatim>\<open>_on_ssl_errors\<close> was called since the last start.
\<close>

lemma run_flag:
  "priv_has_ssl_errors (snd (run cs self)) =
     (if LoadStarted \<in> set cs then SslErrors \<in> set (since_last_start cs)
      else priv_has_ssl_errors self \<or> SslErrors \<in> set cs)"
proof (induction cs rule: rev_induct)
  case Nil
  show ?case by simp
next
  case (snoc c cs)
  show ?case
  proof (cases "c = LoadStarted")
    case True
    have "\<not> priv_has_ssl_errors (snd (deliver LoadStarted (snd (run cs self))))"
      by (simp only: deliver_flag if_True simp_thms)
    with True show ?thesis
      by (simp add: run_snoc_state since_last_start_def del: deliver.simps)
  next
    case False
    have notin: "LoadStarted \<notin> set cs \<Longrightarrow> takeWhile (\<lambda>c. c \<noteq> LoadStarted) (rev cs) = rev cs"
      by (auto simp: takeWhile_eq_all_conv)
    from False show ?thesis
      by (auto simp: run_snoc_state deliver_flag snoc.IH since_last_start_def notin)
  qed
qed

subsection \<open>The constructor\<close>

lemma init_raise:
  "tab_registry w wid = None \<Longrightarrow>
   AbstractTab_init wid u ti w =
     (Raise RegistryUnavailableError, w\<lparr>tab_id_gen := tab_id_gen w + 1\<rparr>)"
  by (simp add: AbstractTab_init_def next_count_def)

lemma init_return:
  "tab_registry w wid = Some reg \<Longrightarrow>
   \<exists>self. AbstractTab_init wid u ti w =
       (Return self,
        w\<lparr>tab_id_gen := tab_id_gen w + 1,
           tab_registry := (tab_registry w)(wid \<mapsto> reg(tab_id_gen w \<mapsto> self))\<rparr>)
     \<and> tab_id self = tab_id_gen w \<and> win_id self = wid"
  by (simp add: AbstractTab_init_def next_count_def Let_def)

lemma init_gen: "tab_id_gen (snd (AbstractTab_init wid u ti w)) = tab_id_gen w + 1"
  by (cases "tab_registry w wid") (auto simp: init_raise dest: init_return [of w wid _ u ti])

text \<open>A constructor call leaves the entries under the ids already given out alone.\<close>

lemma init_keeps:
  assumes "tab_registry w v = Some reg" and "k < tab_id_gen w"
  shows "\<exists>reg'. tab_registry (snd (AbstractTab_init wid u ti w)) v = Some reg' \<and> reg' k = reg k"
proof (cases "tab_registry w wid")
  case None
  with assms show ?thesis by (simp add: init_raise)
next
  case (Some r)
  from init_return [OF Some, of u ti] obtain self where
    "AbstractTab_init wid u ti w =
       (Return self,
        w\<lparr>tab_id_gen := tab_id_gen w + 1,
           tab_registry := (tab_registry w)(wid \<mapsto> r(tab_id_gen w \<mapsto> self))\<rparr>)"
    by blast
  with assms Some show ?thesis by auto
qed

lemma init_dom:
  "(tab_registry (snd (AbstractTab_init wid u ti w)) v = None) = (tab_registry w v = None)"
proof (cases "tab_registry w wid")
  case None
  then show ?thesis by (simp add: init_raise)
next
  case (Some r)
  from init_return [OF Some, of u ti] obtain self where
    "AbstractTab_init wid u ti w =
       (Return self,
        w\<lparr>tab_id_gen := tab_id_gen w + 1,
           tab_registry := (tab_registry w)(wid \<mapsto> r(tab_id_gen w \<mapsto> self))\<rparr>)"
    by blast
  with Some show ?thesis by auto
qed

lemma construct_all_Cons:
  "construct_all (c # cs) w =
     (fst (AbstractTab_init (fst c) (fst (snd c)) (snd (snd c)) w)
        # fst (construct_all cs (snd (AbstractTab_init (fst c) (fst (snd c)) (snd (snd c)) w))),
      snd (construct_all cs (snd (AbstractTab_init (fst c) (fst (snd c)) (snd (snd c)) w))))"
  by (cases c) (simp add: Let_def split: prod.split)

lemma construct_all_length: "length (fst (construct_all cs w)) = length cs"
  by (induction cs arbitrary: w) (simp_all add: construct_all_Cons del: construct_all.simps(2))

lemma construct_all_gen:
  "tab_id_gen (snd (construct_all cs w)) = tab_id_gen w + int (length cs)"
  by (induction cs arbitrary: w)
     (simp_all add: construct_all_Cons init_gen del: construct_all.simps(2))

lemma construct_all_keeps:
  "tab_registry w v = Some reg \<Longrightarrow> k < tab_id_gen w \<Longrightarrow>
   \<exists>reg'. tab_registry (snd (construct_all cs w)) v = Some reg' \<and> reg' k = reg k"
proof (induction cs arbitrary: w reg)
  case Nil
  then show ?case by simp
next
  case (Cons c cs)
  let ?w = "snd (AbstractTab_init (fst c) (fst (snd c)) (snd (snd c)) w)"
  from init_keeps [OF Cons.prems] obtain r where
    r: "tab_registry ?w v = Some r" "r k = reg k" by blast
  have "k < tab_id_gen ?w" using Cons.prems(2) by (simp add: init_gen)
  from Cons.IH [OF r(1) this] r(2) show ?case
    by (simp add: construct_all_Cons del: construct_all.simps(2))
qed

text \<open>
  The \<open>i\<close>-th constructor call of a run that starts with the counter at \<open>n\<close>: when it
  returns, the tab has the id \<open>n + i\<close> and is found under it in the registry of its
  window at the end of the run; it raises only when its window has no registry.
\<close>

lemma construct_all_nth:
  "i < length cs \<Longrightarrow>
   (case fst (construct_all cs w) ! i of
      Return self \<Rightarrow>
        tab_id self = tab_id_gen w + int i \<and> win_id self = fst (cs ! i)
        \<and> (\<exists>reg. tab_registry (snd (construct_all cs w)) (fst (cs ! i)) = Some reg
                 \<and> reg (tab_id self) = Some self)
    | Raise e \<Rightarrow> tab_registry w (fst (cs ! i)) = None)"
proof (induction cs arbitrary: w i)
  case Nil
  then show ?case by simp
next
  case (Cons c cs)
  let ?r = "AbstractTab_init (fst c) (fst (snd c)) (snd (snd c)) w"
  show ?case
  proof (cases i)
    case 0
    show ?thesis
    proof (cases "tab_registry w (fst c)")
      case None
      then show ?thesis using 0
        by (simp add: construct_all_Cons init_raise del: construct_all.simps(2))
    next
      case (Some reg)
      from init_return [OF Some, of "fst (snd c)" "snd (snd c)"] obtain self where
        s: "?r = (Return self,
             w\<lparr>tab_id_gen := tab_id_gen w + 1,
                tab_registry := (tab_registry w)(fst c \<mapsto> reg(tab_id_gen w \<mapsto> self))\<rparr>)"
          "tab_id self = tab_id_gen w" "win_id self = fst c"
        by blast
      have "tab_registry (snd ?r) (fst c) = Some (reg(tab_id_gen w \<mapsto> self))"
        and "tab_id_gen w < tab_id_gen (snd ?r)"
        by (simp_all add: s(1))
      from construct_all_keeps [OF this, of cs] obtain reg' where
        "tab_registry (snd (construct_all cs (snd ?r))) (fst c) = Some reg'"
        "reg' (tab_id_gen w) = Some self"
        by auto
      then show ?thesis using 0 s
        by (simp add: construct_all_Cons del: construct_all.simps(2))
    qed
  next
    case (Suc j)
    with Cons.prems have j: "j < length cs" by simp
    from Cons.IH [OF j, of "snd ?r"] show ?thesis using Suc
      by (cases "fst (construct_all cs (snd ?r)) ! j")
         (auto simp: construct_all_Cons init_gen init_dom simp del: construct_all.simps(2))
  qed
qed

subsection \<open>Counters and dictionaries\<close>

lemma list_eq_list_all2: "list_eq eq xs ys = list_all2 eq xs ys"
  by (induction eq xs ys rule: list_eq.induct) simp_all

lemma map_of_counter_add:
  "map_of (counter_add x c) = (map_of c)(x \<mapsto> (case map_of c x of None \<Rightarrow> 1 | Some n \<Rightarrow> n + 1))"
  by (induction x c rule: counter_add.induct) (auto simp: fun_eq_iff)

lemma keys_counter_add:
  "map fst (counter_add x c) = (if x \<in> fst ` set c then map fst c else map fst c @ [x])"
  by (induction x c rule: counter_add.induct) (auto simp: image_iff)

lemma distinct_counter_add:
  "distinct (map fst c) \<Longrightarrow> distinct (map fst (counter_add x c))"
  by (simp add: keys_counter_add)

lemma distinct_foldl_counter:
  "distinct (map fst c) \<Longrightarrow> distinct (map fst (foldl (\<lambda>c x. counter_add x c) c xs))"
  by (induction xs arbitrary: c) (simp_all add: distinct_counter_add)

lemma map_of_foldl_counter:
  "map_of (foldl (\<lambda>c x. counter_add x c) c xs) k =
     (case map_of c k of
        None \<Rightarrow> (if k \<in> set xs then Some (int (count (mset xs) k)) else None)
      | Some m \<Rightarrow> Some (m + int (count (mset xs) k)))"
proof (induction xs arbitrary: c)
  case Nil
  then show ?case by (simp split: option.split)
next
  case (Cons x xs)
  show ?case
    by (simp add: Cons.IH map_of_counter_add split: option.split)
qed

text \<open>A counter maps every element of the list to the number of its occurrences.\<close>

lemma map_of_Counter:
  "map_of (Counter xs) k = (if k \<in> set xs then Some (int (count (mset xs) k)) else None)"
  by (simp add: Counter_def map_of_foldl_counter)

lemma distinct_Counter: "distinct (map fst (Counter xs))"
  by (simp add: Counter_def distinct_foldl_counter)

text \<open>On dictionaries without repeated keys, the comparison decides equality of the maps.\<close>

lemma dict_eq_map_of:
  assumes a: "distinct (map fst a)" and b: "distinct (map fst b)"
  shows "dict_eq a b \<longleftrightarrow> map_of a = map_of b"
proof
  assume eq: "dict_eq a b"
  then have len: "length a = length b"
    and ent: "\<And>k v. (k, v) \<in> set a \<Longrightarrow> map_of b k = Some v"
    by (auto simp: dict_eq_def list_all_iff)
  have sub: "fst ` set a \<subseteq> fst ` set b"
  proof
    fix k assume "k \<in> fst ` set a"
    then obtain v where "(k, v) \<in> set a" by auto
    then have "map_of b k = Some v" by (rule ent)
    then show "k \<in> fst ` set b" by (metis map_of_SomeD fst_conv image_eqI)
  qed
  have "card (fst ` set a) = length a"
    using a by (metis distinct_card length_map set_map)
  moreover have "card (fst ` set b) = length b"
    using b by (metis distinct_card length_map set_map)
  ultimately have keys: "fst ` set a = fst ` set b"
    using sub len by (simp add: card_subset_eq)
  show "map_of a = map_of b"
  proof
    fix k
    show "map_of a k = map_of b k"
    proof (cases "k \<in> fst ` set a")
      case True
      then obtain v where kv: "(k, v) \<in> set a" by auto
      with a have "map_of a k = Some v" by simp
      with ent [OF kv] show ?thesis by simp
    next
      case False
      then have "map_of a k = None" by (simp add: map_of_eq_None_iff)
      moreover from False keys have "map_of b k = None" by (simp add: map_of_eq_None_iff)
      ultimately show ?thesis by simp
    qed
  qed
next
  assume eq: "map_of a = map_of b"
  then have "dom (map_of a) = dom (map_of b)" by simp
  then have keys: "fst ` set a = fst ` set b" by (simp add: dom_map_of_conv_image_fst)
  have "length a = card (fst ` set a)"
    using a by (metis distinct_card length_map set_map)
  also have "\<dots> = card (fst ` set b)" by (simp add: keys)
  also have "\<dots> = length b"
    using b by (metis distinct_card length_map set_map)
  finally have len: "length a = length b" .
  have "\<And>k v. (k, v) \<in> set a \<Longrightarrow> map_of b k = Some v"
    using a eq by (metis map_of_is_SomeI)
  with len show "dict_eq a b" by (auto simp: dict_eq_def list_all_iff)
qed

lemma Counter_eq_mset: "dict_eq (Counter xs) (Counter ys) \<longleftrightarrow> mset xs = mset ys"
proof -
  have "dict_eq (Counter xs) (Counter ys) \<longleftrightarrow> map_of (Counter xs) = map_of (Counter ys)"
    by (rule dict_eq_map_of) (rule distinct_Counter)+
  also have "\<dots> \<longleftrightarrow> mset xs = mset ys"
  proof
    assume m: "map_of (Counter xs) = map_of (Counter ys)"
    show "mset xs = mset ys"
    proof (rule multiset_eqI)
      fix k
      from m have "map_of (Counter xs) k = map_of (Counter ys) k" by simp
      then show "count (mset xs) k = count (mset ys) k"
        by (cases "k \<in> set xs"; cases "k \<in> set ys")
           (simp_all add: map_of_Counter count_mset_0_iff [THEN iffD2])
    qed
  next
    assume m: "mset xs = mset ys"
    then have "set xs = set ys" by (rule mset_eq_setD)
    with m show "map_of (Counter xs) = map_of (Counter ys)"
      by (auto simp: fun_eq_iff map_of_Counter)
  qed
  finally show ?thesis .
qed

section \<open>The claims\<close>

text \<open>
  C1. \<^verbatim>\<open>_on_load_finished(ok)\<close> always returns, and the load status it leaves, which
  \<^verbatim>\<open>load_status()\<close> then answers, is: \<^verbatim>\<open>success_https\<close> when \<open>ok\<close> holds, the flag
  \<^verbatim>\<open>_has_ssl_errors\<close> is down and the scheme of the URL is \<^verbatim>\<open>https\<close>;
  \<^verbatim>\<open>success\<close> when \<open>ok\<close> holds, the flag is down and the scheme is another one;
  \<^verbatim>\<open>warn\<close> when \<open>ok\<close> holds and the flag is up; \<^verbatim>\<open>error\<close> when \<open>ok\<close> does not hold.
  The flag stands for the SSL errors recorded since the last load start: in every run
  of slot calls that contains an \<^verbatim>\<open>_on_load_started\<close> and ends with
  \<^verbatim>\<open>_on_load_finished(ok)\<close>, the status is the one above, with "the flag is up" read
  as "\<^verbatim>\<open>_on_ssl_errors\<close> was called after the last \<^verbatim>\<open>_on_load_started\<close>".
\<close>

theorem load_finished_status:
  "fst (on_load_finished ok self) = Return ()
   \<and> load_status (snd (on_load_finished ok self)) =
       (if ok \<and> \<not> priv_has_ssl_errors self
        then (if scheme (url self) = ''https'' then success_https else success)
        else if ok then warn else error)
   \<and> (LoadStarted \<in> set cs \<longrightarrow>
        fst (run (cs @ [LoadFinished ok]) self) = Return ()
        \<and> load_status (snd (run (cs @ [LoadFinished ok]) self)) =
            (if ok \<and> SslErrors \<notin> set (since_last_start cs)
             then (if scheme (url self) = ''https'' then success_https else success)
             else if ok then warn else error))"
  by (simp add: load_status_def on_load_finished_status run_returns run_snoc_state
      run_flag run_url)

theorem load_finished_status_witness:
  "LoadStarted \<in> set [LoadStarted, SslErrors, LoadProgress 80]
   \<and> load_status (snd (run ([LoadStarted, SslErrors, LoadProgress 80] @ [LoadFinished True])
        example_tab)) = warn
   \<and> LoadStarted \<in> set [SslErrors, LoadStarted, LoadProgress 80]
   \<and> load_status (snd (run ([SslErrors, LoadStarted, LoadProgress 80] @ [LoadFinished True])
        example_tab)) = success_https
   \<and> load_status (snd (on_load_finished True example_tab)) = warn
   \<and> load_status (snd (on_load_finished False example_tab)) = error"
  using load_finished_status [of True example_tab "[LoadStarted, SslErrors, LoadProgress 80]"]
    load_finished_status [of True example_tab "[SslErrors, LoadStarted, LoadProgress 80]"]
    load_finished_status [of False example_tab "[]"]
  by (simp add: since_last_start_def example_tab_def example_url_def)

text \<open>
  C2. Whatever the tab's state, \<^verbatim>\<open>_on_load_started()\<close> returns and leaves the tab as it
  was but for: the progress, now 0 (and \<^verbatim>\<open>progress()\<close> answers 0), the flag
  \<^verbatim>\<open>_has_ssl_errors\<close>, now down, \<^verbatim>\<open>data.viewing_source\<close>, now False, and the load
  status, now \<^verbatim>\<open>loading\<close>. Two signals are sent. Every other attribute, among them
  \<^verbatim>\<open>data.open_target\<close> and \<^verbatim>\<open>data.hint_target\<close>, keeps its value.
\<close>

theorem load_started_resets:
  "on_load_started self =
     (Return (),
      self\<lparr>priv_progress := 0, priv_has_ssl_errors := False,
           data := (data self)\<lparr>viewing_source := False\<rparr>,
           priv_load_status := loading,
           trace := trace self @ [load_status_changed ''loading'', load_started]\<rparr>)
   \<and> progress (snd (on_load_started self)) = 0
   \<and> priv_has_ssl_errors (snd (on_load_started self)) = False
   \<and> viewing_source (data (snd (on_load_started self))) = False
   \<and> load_status (snd (on_load_started self)) = loading
   \<and> open_target (data (snd (on_load_started self))) = open_target (data self)
   \<and> hint_target (data (snd (on_load_started self))) = hint_target (data self)
   \<and> keep_icon (data (snd (on_load_started self))) = keep_icon (data self)
   \<and> inspector (data (snd (on_load_started self))) = inspector (data self)
   \<and> win_id (snd (on_load_started self)) = win_id self
   \<and> tab_id (snd (on_load_started self)) = tab_id self
   \<and> registry (snd (on_load_started self)) = registry self
   \<and> url (snd (on_load_started self)) = url self
   \<and> title (snd (on_load_started self)) = title self"
  by (simp add: on_load_started_def emit_def Let_def progress_def load_status_def)

theorem load_started_resets_witness:
  "progress example_tab = 37 \<and> priv_has_ssl_errors example_tab
   \<and> viewing_source (data example_tab)
   \<and> progress (snd (on_load_started example_tab)) = 0
   \<and> \<not> priv_has_ssl_errors (snd (on_load_started example_tab))
   \<and> \<not> viewing_source (data (snd (on_load_started example_tab)))
   \<and> load_status (snd (on_load_started example_tab)) = loading
   \<and> open_target (data (snd (on_load_started example_tab))) = tab_bg"
  using load_started_resets [of example_tab]
  by (simp add: example_tab_def progress_def load_status_def)

text \<open>
  C3. In \<^verbatim>\<open>_on_load_finished(ok)\<close> the signals leave in this order:
  \<^verbatim>\<open>load_status_changed\<close> with the name of the new status, then
  \<^verbatim>\<open>load_finished(ok)\<close>, then, when and only when \<^verbatim>\<open>title()\<close> is empty,
  \<^verbatim>\<open>title_changed\<close> with the display string of the URL; nothing else is sent. In
  \<^verbatim>\<open>_on_load_started()\<close>, \<^verbatim>\<open>load_status_changed('loading')\<close> leaves first and
  \<^verbatim>\<open>load_started\<close> second.
\<close>

theorem signal_order:
  "trace (snd (on_load_finished ok self)) =
     trace self
     @ [load_status_changed (LoadStatus_name (load_status (snd (on_load_finished ok self)))),
        load_finished ok]
     @ (if title self = [] then [title_changed (toDisplayString (url self))] else [])
   \<and> trace (snd (on_load_started self)) =
       trace self @ [load_status_changed ''loading'', load_started]"
  by (simp add: on_load_finished_def on_load_started_def emit_def Let_def load_status_def)

theorem signal_order_witness:
  "trace (snd (on_load_finished True example_tab)) =
     [load_status_changed ''warn'', load_finished True, title_changed ''https://example.org/'']
   \<and> trace (snd (on_load_finished True (example_tab\<lparr>title := ''Example''\<rparr>))) =
     [load_status_changed ''warn'', load_finished True]
   \<and> trace (snd (on_load_started example_tab)) =
     [load_status_changed ''loading'', load_started]"
  using signal_order [of True example_tab] signal_order [of True "example_tab\<lparr>title := ''Example''\<rparr>"]
  by (simp add: on_load_finished_status load_status_def example_tab_def example_url_def)

text \<open>
  C4. \<^verbatim>\<open>combined_target()\<close> answers \<^verbatim>\<open>hint_target\<close> when that is not None, and
  \<^verbatim>\<open>open_target\<close> otherwise. \<^verbatim>\<open>_on_start_hinting(t)\<close> sets \<^verbatim>\<open>hint_target\<close> to
  \<open>t\<close> and nothing else, so that the combined target is \<open>t\<close>;
  \<^verbatim>\<open>_on_stop_hinting()\<close> sets \<^verbatim>\<open>hint_target\<close> to None and nothing else, so that
  the combined target is \<^verbatim>\<open>open_target\<close> again. Neither changes \<^verbatim>\<open>open_target\<close>.
\<close>

theorem combined_target_hinting:
  "(\<forall>h. hint_target d = Some h \<longrightarrow> combined_target d = h)
   \<and> (hint_target d = None \<longrightarrow> combined_target d = open_target d)
   \<and> on_start_hinting ht d = d\<lparr>hint_target := Some ht\<rparr>
   \<and> combined_target (on_start_hinting ht d) = ht
   \<and> on_stop_hinting d = d\<lparr>hint_target := None\<rparr>
   \<and> combined_target (on_stop_hinting d) = open_target d
   \<and> open_target (on_start_hinting ht d) = open_target d
   \<and> open_target (on_stop_hinting d) = open_target d"
  by (simp add: combined_target_def on_start_hinting_def on_stop_hinting_def)

theorem combined_target_hinting_witness:
  "hint_target TabData_init = None
   \<and> combined_target TabData_init = normal
   \<and> hint_target (on_start_hinting window TabData_init) = Some window
   \<and> combined_target (on_start_hinting window TabData_init) = window
   \<and> combined_target (on_stop_hinting (on_start_hinting window TabData_init)) = normal"
  using combined_target_hinting [of TabData_init window]
    combined_target_hinting [of "on_start_hinting window TabData_init" window]
  by (simp add: TabData_init_def)

text \<open>
  C5. \<^verbatim>\<open>create(win_id, parent)\<close> builds a \<^verbatim>\<open>WebEngineTab\<close> exactly when the backend
  of the registered arguments is the string \<^verbatim>\<open>webengine\<close>, and a \<^verbatim>\<open>WebKitTab\<close>
  for every other backend; either is built from the window id, the mode manager of
  that window and the parent, and both belong to the one type of tab objects.
\<close>

theorem create_backend:
  "create args modeman_instance wid parent =
     (if backend args = ''webengine'' then WebEngineTab wid (modeman_instance wid) parent
      else WebKitTab wid (modeman_instance wid) parent)
   \<and> ((\<exists>w m p. create args modeman_instance wid parent = WebEngineTab w m p)
        \<longleftrightarrow> backend args = ''webengine'')
   \<and> ((\<exists>w m p. create args modeman_instance wid parent = WebKitTab w m p)
        \<longleftrightarrow> backend args \<noteq> ''webengine'')"
  by (simp add: create_def Let_def)

theorem create_backend_witness:
  "create \<lparr>backend = ''webengine''\<rparr> id 3 (None :: unit option) = WebEngineTab 3 3 None
   \<and> create \<lparr>backend = ''webkit''\<rparr> id 3 (None :: unit option) = WebKitTab 3 3 None
   \<and> create \<lparr>backend = ''WebEngine''\<rparr> id 3 (None :: unit option) = WebKitTab 3 3 None"
  using create_backend [of "\<lparr>backend = ''webengine''\<rparr>" id 3 "None :: unit option"]
    create_backend [of "\<lparr>backend = ''webkit''\<rparr>" id 3 "None :: unit option"]
    create_backend [of "\<lparr>backend = ''WebEngine''\<rparr>" id 3 "None :: unit option"]
  by simp

text \<open>
  C6. \<^verbatim>\<open>_on_link_clicked(url)\<close>, case by case. An invalid URL: an error message is
  shown in the tab's window, \<^verbatim>\<open>data.open_target\<close> becomes \<^verbatim>\<open>normal\<close>, False is
  returned, no tab and no window is opened. A valid URL and the combined target
  \<^verbatim>\<open>normal\<close>: nothing happens, \<^verbatim>\<open>open_target\<close> included. The combined target
  \<^verbatim>\<open>tab\<close> or \<^verbatim>\<open>tab_bg\<close>: the URL goes to \<^verbatim>\<open>tabopen\<close> of the tab's own window,
  in the background exactly for \<^verbatim>\<open>tab_bg\<close>, and \<^verbatim>\<open>open_target\<close> becomes
  \<^verbatim>\<open>normal\<close>. The combined target \<^verbatim>\<open>window\<close>: a window is created and shown,
  the URL goes to \<^verbatim>\<open>tabopen\<close> of that window in the foreground, and
  \<^verbatim>\<open>open_target\<close> becomes \<^verbatim>\<open>normal\<close>.
\<close>

theorem link_clicked_cases:
  "(\<not> isValid u \<longrightarrow>
      on_link_clicked get_errstring nw u self =
        (Return (Some False),
         self\<lparr>data := (data self)\<lparr>open_target := normal\<rparr>,
              trace := trace self
                @ [message_error (win_id self) (get_errstring u ''Invalid link clicked'')]\<rparr>))
   \<and> (isValid u \<and> combined_target (data self) = normal \<longrightarrow>
      on_link_clicked get_errstring nw u self = (Return None, self))
   \<and> (isValid u \<and> combined_target (data self) = tab \<longrightarrow>
      on_link_clicked get_errstring nw u self =
        (Return None,
         self\<lparr>data := (data self)\<lparr>open_target := normal\<rparr>,
              trace := trace self @ [tabopen (win_id self) u False]\<rparr>))
   \<and> (isValid u \<and> combined_target (data self) = tab_bg \<longrightarrow>
      on_link_clicked get_errstring nw u self =
        (Return None,
         self\<lparr>data := (data self)\<lparr>open_target := normal\<rparr>,
              trace := trace self @ [tabopen (win_id self) u True]\<rparr>))
   \<and> (isValid u \<and> combined_target (data self) = window \<longrightarrow>
      on_link_clicked get_errstring nw u self =
        (Return None,
         self\<lparr>data := (data self)\<lparr>open_target := normal\<rparr>,
              trace := trace self
                @ [MainWindow_new nw, MainWindow_show nw, tabopen nw u False]\<rparr>))"
  by (simp add: on_link_clicked_def Let_def call_out_def)

theorem link_clicked_cases_witness:
  "\<not> isValid invalid_url
   \<and> on_link_clicked errstring_base 8 invalid_url example_tab =
       (Return (Some False),
        example_tab\<lparr>data := (data example_tab)\<lparr>open_target := normal\<rparr>,
                    trace := [message_error 3 ''Invalid link clicked'']\<rparr>)
   \<and> isValid example_url
   \<and> combined_target (data example_tab) = tab_bg
   \<and> on_link_clicked errstring_base 8 example_url example_tab =
       (Return None,
        example_tab\<lparr>data := (data example_tab)\<lparr>open_target := normal\<rparr>,
                    trace := [tabopen 3 example_url True]\<rparr>)
   \<and> combined_target (on_start_hinting tab (data example_tab)) = tab
   \<and> on_link_clicked errstring_base 8 example_url
        (example_tab\<lparr>data := on_start_hinting tab (data example_tab)\<rparr>) =
       (Return None,
        example_tab\<lparr>data := (on_start_hinting tab (data example_tab))\<lparr>open_target := normal\<rparr>,
                    trace := [tabopen 3 example_url False]\<rparr>)
   \<and> combined_target (on_start_hinting window (data example_tab)) = window
   \<and> on_link_clicked errstring_base 8 example_url
        (example_tab\<lparr>data := on_start_hinting window (data example_tab)\<rparr>) =
       (Return None,
        example_tab\<lparr>data := (on_start_hinting window (data example_tab))\<lparr>open_target := normal\<rparr>,
                    trace := [MainWindow_new 8, MainWindow_show 8, tabopen 8 example_url False]\<rparr>)
   \<and> combined_target (on_start_hinting normal (data example_tab)) = normal
   \<and> on_link_clicked errstring_base 8 example_url
        (example_tab\<lparr>data := on_start_hinting normal (data example_tab)\<rparr>) =
       (Return None, example_tab\<lparr>data := on_start_hinting normal (data example_tab)\<rparr>)"
  using link_clicked_cases [where u = invalid_url and self = example_tab
      and get_errstring = errstring_base and nw = 8]
    link_clicked_cases [where u = example_url and self = example_tab
      and get_errstring = errstring_base and nw = 8]
    link_clicked_cases [where u = example_url
      and self = "example_tab\<lparr>data := on_start_hinting tab (data example_tab)\<rparr>"
      and get_errstring = errstring_base and nw = 8]
    link_clicked_cases [where u = example_url
      and self = "example_tab\<lparr>data := on_start_hinting window (data example_tab)\<rparr>"
      and get_errstring = errstring_base and nw = 8]
    link_clicked_cases [where u = example_url
      and self = "example_tab\<lparr>data := on_start_hinting normal (data example_tab)\<rparr>"
      and get_errstring = errstring_base and nw = 8]
  by (simp add: example_tab_def example_url_def invalid_url_def errstring_base_def
      combined_target_def on_start_hinting_def)

text \<open>
  C7, as the code has it. A call \<^verbatim>\<open>set_factor(factor)\<close> with \<open>factor < 0\<close> never calls
  \<^verbatim>\<open>_set_factor_internal\<close> and never returns: the widget and
  \<^verbatim>\<open>_default_zoom_changed\<close> keep their values. It raises ValueError when
  \<^verbatim>\<open>fuzzyval\<close> is False, with nothing changed, and when \<^verbatim>\<open>fuzzyval\<close> is True
  and \<^verbatim>\<open>int(factor * 100)\<close> has a value, the \<^verbatim>\<open>fuzzyval\<close> of the neighbor list
  being that value by then. A call with \<open>factor >= 0\<close> returns, with
  \<^verbatim>\<open>_default_zoom_changed\<close> True and the factor handed to
  \<^verbatim>\<open>_set_factor_internal\<close>, when \<^verbatim>\<open>fuzzyval\<close> is False or
  \<^verbatim>\<open>int(factor * 100)\<close> has a value. When \<^verbatim>\<open>fuzzyval\<close> is True and
  \<^verbatim>\<open>int(factor * 100)\<close> raises (the product is an infinity or a NaN), the call
  raises that exception and changes nothing, whatever the sign of the factor.
\<close>

theorem set_factor_outcomes:
  "(float_lt factor (Finite 0) \<longrightarrow>
      fst (set_factor rnd sfi factor fuzzy self) \<noteq> Return ()
      \<and> zoom_widget (snd (set_factor rnd sfi factor fuzzy self)) = zoom_widget self
      \<and> default_zoom_changed (snd (set_factor rnd sfi factor fuzzy self))
          = default_zoom_changed self)
   \<and> (float_lt factor (Finite 0) \<and> \<not> fuzzy \<longrightarrow>
      set_factor rnd sfi factor fuzzy self = (Raise ValueError, self))
   \<and> (float_lt factor (Finite 0) \<and> fuzzy
       \<and> py_int (float_mul rnd factor (Finite 100)) = Return n \<longrightarrow>
      set_factor rnd sfi factor fuzzy self =
        (Raise ValueError, self\<lparr>neighborlist := (neighborlist self)\<lparr>fuzzyval := n\<rparr>\<rparr>))
   \<and> (float_ge factor (Finite 0) \<and> \<not> fuzzy \<longrightarrow>
      set_factor rnd sfi factor fuzzy self =
        (Return (), self\<lparr>default_zoom_changed := True,
                          zoom_widget := sfi factor (zoom_widget self)\<rparr>))
   \<and> (float_ge factor (Finite 0) \<and> fuzzy
       \<and> py_int (float_mul rnd factor (Finite 100)) = Return n \<longrightarrow>
      set_factor rnd sfi factor fuzzy self =
        (Return (), self\<lparr>neighborlist := (neighborlist self)\<lparr>fuzzyval := n\<rparr>,
                          default_zoom_changed := True,
                          zoom_widget := sfi factor (zoom_widget self)\<rparr>))
   \<and> (fuzzy \<and> py_int (float_mul rnd factor (Finite 100)) = Raise e \<longrightarrow>
      set_factor rnd sfi factor fuzzy self = (Raise e, self))"
proof -
  have neg: "float_ge factor (Finite 0) \<Longrightarrow> \<not> float_lt factor (Finite 0)"
    by (cases factor) simp_all
  show ?thesis
    by (cases "py_int (float_mul rnd factor (Finite 100))")
       (auto simp: set_factor_def Let_def dest: neg)
qed

theorem set_factor_outcomes_witness:
  "float_lt (Finite (- 1 / 2)) (Finite 0)
   \<and> py_int (float_mul Finite (Finite (- 1 / 2)) (Finite 100)) = Return (- 50)
   \<and> set_factor Finite widget_setZoomFactor (Finite (- 1 / 2)) True example_zoom =
       (Raise ValueError, example_zoom\<lparr>neighborlist := \<lparr>levels = [50, 100, 200], fuzzyval = - 50\<rparr>\<rparr>)
   \<and> set_factor Finite widget_setZoomFactor (Finite (- 1 / 2)) False example_zoom =
       (Raise ValueError, example_zoom)
   \<and> float_ge (Finite (3 / 2)) (Finite 0)
   \<and> py_int (float_mul Finite (Finite (3 / 2)) (Finite 100)) = Return 150
   \<and> set_factor Finite widget_setZoomFactor (Finite (3 / 2)) True example_zoom =
       (Return (), \<lparr>zoom_widget = Finite (3 / 2), zoom_win_id = 3, default_zoom_changed = True,
                    neighborlist = \<lparr>levels = [50, 100, 200], fuzzyval = 150\<rparr>\<rparr>)
   \<and> py_int (float_mul Finite NaN (Finite 100)) = Raise ValueError
   \<and> set_factor Finite widget_setZoomFactor NaN True example_zoom = (Raise ValueError, example_zoom)"
  using set_factor_outcomes [of "Finite (- 1 / 2)" Finite widget_setZoomFactor True example_zoom "- 50"]
    set_factor_outcomes [of "Finite (- 1 / 2)" Finite widget_setZoomFactor False example_zoom]
    set_factor_outcomes [of "Finite (3 / 2)" Finite widget_setZoomFactor True example_zoom 150]
    set_factor_outcomes [of NaN Finite widget_setZoomFactor True example_zoom _ ValueError]
  by (simp add: example_zoom_def widget_setZoomFactor_def)

text \<open>
  C7 as stated fails at the infinities. With the default \<^verbatim>\<open>fuzzyval=True\<close>,
  \<^verbatim>\<open>set_factor(float('inf'))\<close> raises OverflowError although the factor is
  \<open>>= 0\<close>, and \<^verbatim>\<open>set_factor(float('-inf'))\<close> raises OverflowError, not ValueError,
  with \<^verbatim>\<open>fuzzyval\<close> not updated: \<^verbatim>\<open>int(factor * 100)\<close> raises first.
\<close>

theorem set_factor_infinite_counterexample:
  "float_ge PosInf (Finite 0)
   \<and> set_factor Finite widget_setZoomFactor PosInf True example_zoom =
       (Raise OverflowError, example_zoom)
   \<and> float_lt NegInf (Finite 0)
   \<and> set_factor Finite widget_setZoomFactor NegInf True example_zoom =
       (Raise OverflowError, example_zoom)"
  by (simp add: set_factor_def)

text \<open>
  C8. The step \<^verbatim>\<open>The requests should be:\<close> passes exactly when the requests of the
  server and the expected requests have the same length and are equal (by the
  \<^verbatim>\<open>==\<close> of a request with an expected request) at every position; where that
  \<^verbatim>\<open>==\<close> agrees with the conversion \<^verbatim>\<open>from_request\<close>, exactly when the converted
  requests are the expected list. The step \<^verbatim>\<open>The unordered requests should be:\<close>
  passes exactly when the converted requests and the expected ones are equal as
  multisets (\<open>mset\<close> forgets the order of a list and keeps how often every element
  occurs, so that two lists have the same multiset exactly when one is a permutation
  of the other).
\<close>

theorem request_steps:
  "(list_of_requests req_eq actual pages = Return ()
      \<longleftrightarrow> list_all2 req_eq actual (expected_requests pages))
   \<and> ((\<forall>r e. req_eq r e = (from_request r = e)) \<longrightarrow>
        (list_of_requests req_eq actual pages = Return ()
           \<longleftrightarrow> map from_request actual = expected_requests pages))
   \<and> (list_of_requests_unordered from_request actual pages = Return ()
      \<longleftrightarrow> mset (map from_request actual) = mset (expected_requests pages))"
proof -
  have "list_all2 req_eq actual ys \<longleftrightarrow> map from_request actual = ys"
    if "\<forall>r e. req_eq r e = (from_request r = e)" for ys
  proof -
    from that have "req_eq = (\<lambda>r e. from_request r = e)" by (simp add: fun_eq_iff)
    then show ?thesis
      using list_all2_map1 [of "(=)" from_request actual ys] by (simp add: list.rel_eq)
  qed
  then show ?thesis
    by (simp add: list_of_requests_def list_of_requests_unordered_def Let_def
        list_eq_list_all2 Counter_eq_mset)
qed

theorem request_steps_witness:
  "(\<forall>r e. (r = e) = (id r = e))
   \<and> expected_requests [CHR ''a'', CHR 0x0A, CHR '' '', CHR ''b''] =
       [ExpectedRequest ''GET'' ''/a'', ExpectedRequest ''GET'' ''/b'']
   \<and> list_of_requests (=) [ExpectedRequest ''GET'' ''/a'', ExpectedRequest ''GET'' ''/b'']
        [CHR ''a'', CHR 0x0A, CHR '' '', CHR ''b''] = Return ()
   \<and> list_of_requests (=) [ExpectedRequest ''GET'' ''/b'', ExpectedRequest ''GET'' ''/a'']
        [CHR ''a'', CHR 0x0A, CHR '' '', CHR ''b''] \<noteq> Return ()
   \<and> list_of_requests_unordered id [ExpectedRequest ''GET'' ''/b'', ExpectedRequest ''GET'' ''/a'']
        [CHR ''a'', CHR 0x0A, CHR '' '', CHR ''b''] = Return ()
   \<and> list_of_requests_unordered id [ExpectedRequest ''GET'' ''/a'', ExpectedRequest ''GET'' ''/a'']
        [CHR ''a'', CHR 0x0A, CHR '' '', CHR ''b''] \<noteq> Return ()"
proof -
  have e: "expected_requests [CHR ''a'', CHR 0x0A, CHR '' '', CHR ''b''] =
       [ExpectedRequest ''GET'' ''/a'', ExpectedRequest ''GET'' ''/b'']"
    by (simp add: expected_requests_def strip_def isspace_def)
  have h: "\<forall>r e::ExpectedRequest. (r = e) = (id r = e)" by simp
  show ?thesis
    using h
      request_steps [of "(=)" "[ExpectedRequest ''GET'' ''/a'', ExpectedRequest ''GET'' ''/b'']"
        "[CHR ''a'', CHR 0x0A, CHR '' '', CHR ''b'']" id]
      request_steps [of "(=)" "[ExpectedRequest ''GET'' ''/b'', ExpectedRequest ''GET'' ''/a'']"
        "[CHR ''a'', CHR 0x0A, CHR '' '', CHR ''b'']" id]
      request_steps [of "(=)" "[ExpectedRequest ''GET'' ''/a'', ExpectedRequest ''GET'' ''/a'']"
        "[CHR ''a'', CHR 0x0A, CHR '' '', CHR ''b'']" id]
    by (simp add: e)
qed

text \<open>
  C9. \<^verbatim>\<open>_set_load_status(val)\<close> with a \<open>val\<close> that is no member of
  \<^verbatim>\<open>LoadStatus\<close> raises TypeError and leaves the tab as it was: the status is kept and
  no signal is sent. With a member it returns, the member is the stored status, and
  \<^verbatim>\<open>load_status_changed\<close> is sent once, with the member's name; nothing else changes.
\<close>

theorem set_load_status_checked:
  "((\<forall>s. val \<noteq> LoadStatusV s) \<longrightarrow> set_load_status val self = (Raise TypeError, self))
   \<and> set_load_status (LoadStatusV m) self =
       (Return (), self\<lparr>priv_load_status := m,
                         trace := trace self @ [load_status_changed (LoadStatus_name m)]\<rparr>)"
  by (cases val) (simp_all add: set_load_status_def emit_def)

theorem set_load_status_checked_witness:
  "(\<forall>s. StrV ''success'' \<noteq> LoadStatusV s)
   \<and> set_load_status (StrV ''success'') example_tab = (Raise TypeError, example_tab)
   \<and> set_load_status (LoadStatusV success_https) example_tab =
       (Return (), example_tab\<lparr>priv_load_status := success_https,
                                trace := [load_status_changed ''success_https'']\<rparr>)"
  using set_load_status_checked [of "StrV ''success''" example_tab success_https]
  by (simp add: example_tab_def)

text \<open>
  C10. In a process that starts with the counter \<^verbatim>\<open>tab_id_gen\<close> at 0, the \<open>i\<close>-th
  constructor call (counting from 0) takes the id \<open>i\<close> from the counter: a tab it
  returns has the tab id \<open>i\<close>, so the ids of the tabs are pairwise distinct and grow
  strictly in the order of construction, from 0 on; the tab belongs to the window it
  was constructed for and stands under its id in the tab registry of that window, at
  the end of the run as well. A call raises only when its window has no tab registry;
  the id it took is not given out again, the counter having moved on by one for every
  call.
\<close>

theorem tab_ids_from_counter:
  "tab_id_gen (World_init regs) = 0
   \<and> length (fst (construct_all cs (World_init regs))) = length cs
   \<and> tab_id_gen (snd (construct_all cs (World_init regs))) = int (length cs)
   \<and> (\<forall>i < length cs.
        case fst (construct_all cs (World_init regs)) ! i of
          Return self \<Rightarrow>
            tab_id self = int i \<and> win_id self = fst (cs ! i)
            \<and> (\<exists>reg. tab_registry (snd (construct_all cs (World_init regs))) (fst (cs ! i))
                       = Some reg
                     \<and> reg (int i) = Some self)
        | Raise e \<Rightarrow> regs (fst (cs ! i)) = None)
   \<and> (\<forall>i j a b. i < j \<and> j < length cs
        \<and> fst (construct_all cs (World_init regs)) ! i = Return a
        \<and> fst (construct_all cs (World_init regs)) ! j = Return b
        \<longrightarrow> tab_id a < tab_id b)"
proof -
  have w0: "tab_id_gen (World_init regs) = 0" "tab_registry (World_init regs) = regs"
    by (simp_all add: World_init_def)
  have "case fst (construct_all cs (World_init regs)) ! i of
          Return self \<Rightarrow>
            tab_id self = int i \<and> win_id self = fst (cs ! i)
            \<and> (\<exists>reg. tab_registry (snd (construct_all cs (World_init regs))) (fst (cs ! i))
                       = Some reg
                     \<and> reg (int i) = Some self)
        | Raise e \<Rightarrow> regs (fst (cs ! i)) = None" if "i < length cs" for i
    using construct_all_nth [OF that, of "World_init regs"]
    by (cases "fst (construct_all cs (World_init regs)) ! i") (auto simp: w0)
  then have nth: "\<forall>i < length cs.
        case fst (construct_all cs (World_init regs)) ! i of
          Return self \<Rightarrow>
            tab_id self = int i \<and> win_id self = fst (cs ! i)
            \<and> (\<exists>reg. tab_registry (snd (construct_all cs (World_init regs))) (fst (cs ! i))
                       = Some reg
                     \<and> reg (int i) = Some self)
        | Raise e \<Rightarrow> regs (fst (cs ! i)) = None"
    by blast
  have "tab_id a < tab_id b"
    if "i < j" "j < length cs"
      "fst (construct_all cs (World_init regs)) ! i = Return a"
      "fst (construct_all cs (World_init regs)) ! j = Return b" for i j a b
  proof -
    from that have "i < length cs" by simp
    with nth that(3) have "tab_id a = int i" by fastforce
    moreover from nth that(2,4) have "tab_id b = int j" by fastforce
    ultimately show ?thesis using that(1) by simp
  qed
  then have ord: "\<forall>i j a b. i < j \<and> j < length cs
        \<and> fst (construct_all cs (World_init regs)) ! i = Return a
        \<and> fst (construct_all cs (World_init regs)) ! j = Return b
        \<longrightarrow> tab_id a < tab_id b"
    by blast
  from nth ord show ?thesis
    by (simp only: construct_all_length construct_all_gen w0 simp_thms add_0)
qed

theorem tab_ids_from_counter_witness:
  "(2::nat) < length [(3::int, example_url, ''''), (4, example_url, ''''), (3, invalid_url, ''x'')]
   \<and> tab_id_gen (snd (construct_all
         [(3, example_url, ''''), (4, example_url, ''''), (3, invalid_url, ''x'')]
         (World_init one_window))) = 3
   \<and> (\<exists>self reg.
         fst (construct_all
           [(3, example_url, ''''), (4, example_url, ''''), (3, invalid_url, ''x'')]
           (World_init one_window)) ! 2 = Return self
         \<and> tab_id self = 2 \<and> win_id self = 3
         \<and> tab_registry (snd (construct_all
               [(3, example_url, ''''), (4, example_url, ''''), (3, invalid_url, ''x'')]
               (World_init one_window))) 3 = Some reg
         \<and> reg 2 = Some self)"
proof -
  let ?cs = "[(3::int, example_url, ''''), (4, example_url, ''''), (3, invalid_url, ''x'')]"
  let ?rs = "fst (construct_all ?cs (World_init one_window))"
  have len: "(2::nat) < length ?cs" by simp
  note t = tab_ids_from_counter [of one_window ?cs]
  from t have "\<forall>i < length ?cs.
        case ?rs ! i of
          Return self \<Rightarrow>
            tab_id self = int i \<and> win_id self = fst (?cs ! i)
            \<and> (\<exists>reg. tab_registry (snd (construct_all ?cs (World_init one_window))) (fst (?cs ! i))
                       = Some reg
                     \<and> reg (int i) = Some self)
        | Raise e \<Rightarrow> one_window (fst (?cs ! i)) = None"
    by blast
  with len have "case ?rs ! 2 of
          Return self \<Rightarrow>
            tab_id self = int 2 \<and> win_id self = fst (?cs ! 2)
            \<and> (\<exists>reg. tab_registry (snd (construct_all ?cs (World_init one_window))) (fst (?cs ! 2))
                       = Some reg
                     \<and> reg (int 2) = Some self)
        | Raise e \<Rightarrow> one_window (fst (?cs ! 2)) = None"
    by blast
  moreover from t have "tab_id_gen (snd (construct_all ?cs (World_init one_window))) = 3"
    by simp
  ultimately show ?thesis
    by (cases "?rs ! 2") (auto simp: one_window_def)
qed

end
